theory Spec2Isabelle
  imports Complex_Main "HOL-Library.Char_ord" "HOL-Library.List_Lexorder" "HOL-Library.Multiset"
begin

section \<open>The relational store\<close>

text \<open>
  The server keeps all of its state in one SQLite database with two tables, created by
  \<^verbatim>\<open>createTables\<close>. A row of \<^verbatim>\<open>users\<close> has the columns id, fullname, email, password,
  dob, phone and state, all declared \<^verbatim>\<open>NOT NULL\<close>; a row of \<^verbatim>\<open>medicines\<close> has id, name,
  expiry_date, quantity (\<^verbatim>\<open>NOT NULL\<close>), the nullable donor_id and donor_email, and
  donation_date, which no statement of the program ever supplies, so that it is always
  the text of \<^verbatim>\<open>CURRENT_TIMESTAMP\<close> at the insert. Both id columns are
  \<^verbatim>\<open>INTEGER PRIMARY KEY AUTOINCREMENT\<close>; the two \<open>_seq\<close> fields are the rows of
  \<^verbatim>\<open>sqlite_sequence\<close>, the largest id ever handed out per table. A table is the list of its
  rows in insertion order. SQLite integers are modelled as unbounded \<open>int\<close>, text as
  \<open>string\<close>, compared byte by byte as the default collation does.

  The quantity column has INTEGER affinity, which prefers integers and refuses nothing:
  what it holds is an integer, or a REAL (a fraction, or a number beyond 64 bits), or TEXT
  that does not read as a number. A \<open>sqlvalue\<close> is such a value; NULL is kept apart as
  \<open>None\<close>.
\<close>

datatype sqlvalue = SqlInteger int | SqlReal real | SqlText string

record user =
  users_id :: int
  fullname :: string
  email :: string
  password :: string
  dob :: string
  phone :: string
  state :: string

record medicine =
  medicines_id :: int
  name :: string
  expiry_date :: string
  quantity :: sqlvalue
  donor_id :: "int option"
  donor_email :: "string option"
  donation_date :: string

record store =
  users :: "user list"
  users_seq :: int
  medicines :: "medicine list"
  medicines_seq :: int

definition createTables :: store where
  "createTables = \<lparr>users = [], users_seq = 0, medicines = [], medicines_seq = 0\<rparr>"

text \<open>
  Every sqlite3 call hands its callback an \<open>err\<close>. It is set when a constraint of the
  schema rejects the statement, which the model computes, or when the engine itself fails
  (I/O, a busy file), which the environment decides: a \<open>fault\<close> is the message of such a
  failure, \<open>None\<close> when the engine works. A failed statement changes nothing.
\<close>

type_synonym fault = "string option"

text \<open>AUTOINCREMENT: one more than the largest id the table holds or has ever held.\<close>

definition next_rowid :: "int \<Rightarrow> int list \<Rightarrow> int" where
  "next_rowid seq ids = fold max ids seq + 1"

text \<open>
  \<^verbatim>\<open>SELECT ... FROM users WHERE email = ?\<close> through \<^verbatim>\<open>db.get\<close>: the first matching row, or
  none. The three handlers that run it differ in the columns they select (email; all;
  id) and read only those from the row. A parameter that is absent from the request binds
  NULL, and \<open>email = NULL\<close> holds for no row.
\<close>

definition select_user_by_email :: "store \<Rightarrow> string option \<Rightarrow> fault \<Rightarrow> string + user option" where
  "select_user_by_email db e f =
     (case f of
        Some msg \<Rightarrow> Inl msg
      | None \<Rightarrow>
          (case e of
             None \<Rightarrow> Inr None
           | Some a \<Rightarrow> Inr (find (\<lambda>u. email u = a) (users db))))"

text \<open>
  \<^verbatim>\<open>INSERT INTO users (fullname, email, password, dob, phone, state)\<close>: the NOT NULL
  columns are checked in column order, then the UNIQUE index on email. On success the
  callback's \<open>this.lastID\<close> is the new id.
\<close>

definition insert_user ::
  "store \<Rightarrow> string option \<Rightarrow> string option \<Rightarrow> string \<Rightarrow> string option \<Rightarrow> string option \<Rightarrow>
   string option \<Rightarrow> fault \<Rightarrow> string + (int \<times> store)" where
  "insert_user db fn em pw d ph s f =
     (case f of
        Some msg \<Rightarrow> Inl msg
      | None \<Rightarrow>
     (case fn of
        None \<Rightarrow> Inl ''SQLITE_CONSTRAINT: NOT NULL constraint failed: users.fullname''
      | Some fn' \<Rightarrow>
     (case em of
        None \<Rightarrow> Inl ''SQLITE_CONSTRAINT: NOT NULL constraint failed: users.email''
      | Some em' \<Rightarrow>
     (case d of
        None \<Rightarrow> Inl ''SQLITE_CONSTRAINT: NOT NULL constraint failed: users.dob''
      | Some d' \<Rightarrow>
     (case ph of
        None \<Rightarrow> Inl ''SQLITE_CONSTRAINT: NOT NULL constraint failed: users.phone''
      | Some ph' \<Rightarrow>
     (case s of
        None \<Rightarrow> Inl ''SQLITE_CONSTRAINT: NOT NULL constraint failed: users.state''
      | Some s' \<Rightarrow>
          if list_ex (\<lambda>u. email u = em') (users db)
          then Inl ''SQLITE_CONSTRAINT: UNIQUE constraint failed: users.email''
          else
            (let i = next_rowid (users_seq db) (map users_id (users db)) in
             Inr (i, db\<lparr>users := users db @
                          [\<lparr>users_id = i, fullname = fn', email = em', password = pw,
                            dob = d', phone = ph', state = s'\<rparr>],
                        users_seq := i\<rparr>))))))))"

text \<open>
  \<^verbatim>\<open>INSERT INTO medicines (name, expiry_date, quantity, donor_id, donor_email)\<close>;
  \<open>now\<close> is the value of \<^verbatim>\<open>CURRENT_TIMESTAMP\<close> that the default of donation_date takes.
  The foreign key of donor_id is declared but SQLite enforces none unless
  \<^verbatim>\<open>PRAGMA foreign_keys\<close> is switched on, which the program never does.
\<close>

definition insert_medicine ::
  "store \<Rightarrow> string \<Rightarrow> string option \<Rightarrow> string option \<Rightarrow> sqlvalue option \<Rightarrow> int option \<Rightarrow>
   string option \<Rightarrow> fault \<Rightarrow> string + (int \<times> store)" where
  "insert_medicine db now n ex q did dem f =
     (case f of
        Some msg \<Rightarrow> Inl msg
      | None \<Rightarrow>
     (case n of
        None \<Rightarrow> Inl ''SQLITE_CONSTRAINT: NOT NULL constraint failed: medicines.name''
      | Some n' \<Rightarrow>
     (case ex of
        None \<Rightarrow> Inl ''SQLITE_CONSTRAINT: NOT NULL constraint failed: medicines.expiry_date''
      | Some ex' \<Rightarrow>
     (case q of
        None \<Rightarrow> Inl ''SQLITE_CONSTRAINT: NOT NULL constraint failed: medicines.quantity''
      | Some q' \<Rightarrow>
          (let i = next_rowid (medicines_seq db) (map medicines_id (medicines db)) in
           Inr (i, db\<lparr>medicines := medicines db @
                        [\<lparr>medicines_id = i, name = n', expiry_date = ex', quantity = q',
                          donor_id = did, donor_email = dem, donation_date = now\<rparr>],
                      medicines_seq := i\<rparr>))))))"

text \<open>\<^verbatim>\<open>UPDATE medicines SET donor_id = NULL WHERE donor_id = ?\<close>\<close>

definition update_donor_null :: "store \<Rightarrow> int \<Rightarrow> fault \<Rightarrow> string + store" where
  "update_donor_null db userId f =
     (case f of
        Some msg \<Rightarrow> Inl msg
      | None \<Rightarrow>
          Inr (db\<lparr>medicines :=
                 map (\<lambda>m. if donor_id m = Some userId then m\<lparr>donor_id := None\<rparr> else m)
                   (medicines db)\<rparr>))"

text \<open>
  \<^verbatim>\<open>DELETE FROM users WHERE id = ?\<close>; the first component is \<open>this.changes\<close>, the number
  of rows the statement removed.
\<close>

definition delete_user :: "store \<Rightarrow> int \<Rightarrow> fault \<Rightarrow> string + (nat \<times> store)" where
  "delete_user db userId f =
     (case f of
        Some msg \<Rightarrow> Inl msg
      | None \<Rightarrow>
          Inr (length (filter (\<lambda>u. users_id u = userId) (users db)),
               db\<lparr>users := filter (\<lambda>u. users_id u \<noteq> userId) (users db)\<rparr>))"

text \<open>
  \<^verbatim>\<open>ORDER BY donation_date DESC\<close>. SQL leaves the order of rows with equal keys to the
  engine; the model keeps them in table order. The theorems below speak of the rows
  returned and of their keys being in descending order only.
\<close>

definition order_by_desc :: "('a \<Rightarrow> string) \<Rightarrow> 'a list \<Rightarrow> 'a list" where
  "order_by_desc k rows = rev (sort_key k (rev rows))"

text \<open>
  \<^verbatim>\<open>SELECT id, name, expiry_date, quantity, donation_date FROM medicines WHERE donor_id = ?
  ORDER BY donation_date DESC\<close>. The rows are returned whole here; the column list is
  applied where the row is rendered (\<open>donation_json\<close>).
\<close>

definition select_donations :: "store \<Rightarrow> int \<Rightarrow> fault \<Rightarrow> string + medicine list" where
  "select_donations db userId f =
     (case f of
        Some msg \<Rightarrow> Inl msg
      | None \<Rightarrow>
          Inr (order_by_desc donation_date
                 (filter (\<lambda>m. donor_id m = Some userId) (medicines db))))"

text \<open>
  \<^verbatim>\<open>SELECT m.id, ..., m.donor_email, u.fullname as donor_name FROM medicines m
  LEFT JOIN users u ON m.donor_id = u.id ORDER BY m.donation_date DESC\<close>: one row per
  matching user, and one row with a NULL donor_name for a medicine that matches none.
\<close>

definition left_join_users :: "user list \<Rightarrow> medicine \<Rightarrow> (medicine \<times> string option) list" where
  "left_join_users us m =
     (case filter (\<lambda>u. donor_id m = Some (users_id u)) us of
        [] \<Rightarrow> [(m, None)]
      | matches \<Rightarrow> map (\<lambda>u. (m, Some (fullname u))) matches)"

definition select_medicines :: "store \<Rightarrow> fault \<Rightarrow> string + (medicine \<times> string option) list" where
  "select_medicines db f =
     (case f of
        Some msg \<Rightarrow> Inl msg
      | None \<Rightarrow>
          Inr (order_by_desc (\<lambda>r. donation_date (fst r))
                 (concat (map (left_join_users (users db)) (medicines db)))))"

section \<open>Requests and responses\<close>

datatype json =
  JNull | JInt int | JReal real | JStr string | JArr "json list" | JObj "(string \<times> json) list"

record response =
  status :: nat
  body :: json

definition error_json :: "string \<Rightarrow> json" where
  "error_json msg = JObj [(''error'', JStr msg)]"

definition nullable :: "string option \<Rightarrow> json" where
  "nullable s = (case s of None \<Rightarrow> JNull | Some t \<Rightarrow> JStr t)"

definition quantity_json :: "sqlvalue \<Rightarrow> json" where
  "quantity_json q = (case q of SqlInteger i \<Rightarrow> JInt i | SqlReal r \<Rightarrow> JReal r | SqlText t \<Rightarrow> JStr t)"

definition donation_json :: "medicine \<Rightarrow> json" where
  "donation_json m =
     JObj [(''id'', JInt (medicines_id m)), (''name'', JStr (name m)),
           (''expiry_date'', JStr (expiry_date m)),
           (''quantity'', quantity_json (quantity m)),
           (''donation_date'', JStr (donation_date m))]"

definition medicine_json :: "medicine \<times> string option \<Rightarrow> json" where
  "medicine_json r =
     JObj [(''id'', JInt (medicines_id (fst r))), (''name'', JStr (name (fst r))),
           (''expiry_date'', JStr (expiry_date (fst r))),
           (''quantity'', quantity_json (quantity (fst r))),
           (''donation_date'', JStr (donation_date (fst r))),
           (''donor_email'', nullable (donor_email (fst r))),
           (''donor_name'', nullable (snd r))]"

text \<open>
  The JSON bodies of the POST routes. A text field that is absent or null is \<open>None\<close>.
  The quantity of a donation is given as the value the engine makes of the field when it
  binds it to the INTEGER column: \<open>None\<close> when the field is absent or null, an integer for
  a JSON integer or text that reads as one, REAL or TEXT otherwise. The handlers look at
  none of these fields themselves.

  The passwords are different: the handlers compare them with \<^verbatim>\<open>!==\<close> and hand them to
  bcrypt, which insists on a string. They are kept as the JavaScript values that the JSON
  parser delivers; two parsed objects or arrays are never the same object.
\<close>

datatype jsvalue = JsUndefined | JsNull | JsBoolean bool | JsNumber real | JsString string | JsObject

definition strict_unequal :: "jsvalue \<Rightarrow> jsvalue \<Rightarrow> bool" where
  "strict_unequal a b \<longleftrightarrow> a = JsObject \<or> b = JsObject \<or> a \<noteq> b"

text \<open>
  \<^verbatim>\<open>bcrypt.hash(data, 10)\<close> and \<^verbatim>\<open>bcrypt.compare(data, hash)\<close>, used as promises. Both
  reject when \<open>data\<close> is not a string; on a string they are the functions \<open>hash\<close> and
  \<open>compare\<close> that the model takes as parameters.
\<close>

definition bcrypt_hash :: "(string \<Rightarrow> string) \<Rightarrow> jsvalue \<Rightarrow> string + string" where
  "bcrypt_hash hash data =
     (case data of
        JsString pw \<Rightarrow> Inr (hash pw)
      | JsUndefined \<Rightarrow> Inl ''data and salt arguments required''
      | JsNull \<Rightarrow> Inl ''data and salt arguments required''
      | _ \<Rightarrow> Inl ''data must be a string or Buffer and salt must either be a salt string or a number of rounds'')"

definition bcrypt_compare :: "(string \<Rightarrow> string \<Rightarrow> bool) \<Rightarrow> jsvalue \<Rightarrow> string \<Rightarrow> bool option" where
  "bcrypt_compare compare data h =
     (case data of JsString pw \<Rightarrow> Some (compare pw h) | _ \<Rightarrow> None)"

record register_body =
  body_fullname :: "string option"
  body_email :: "string option"
  body_password :: jsvalue
  body_confirmPassword :: jsvalue
  body_dob :: "string option"
  body_phone :: "string option"
  body_state :: "string option"

record donate_body =
  body_medicineName :: "string option"
  body_expiry_date :: "string option"
  body_quantity :: "sqlvalue option"
  body_donor_email :: "string option"

section \<open>The route handlers\<close>

text \<open>
  \<^verbatim>\<open>POST /register\<close>. The handler runs in two steps: everything up to the callback of
  the existence check, which may already answer (\<open>Inl\<close>) or go on with the hashed
  password (\<open>Inr\<close>), and the insert. A rejection of \<^verbatim>\<open>bcrypt.hash\<close> is awaited inside
  the handler's \<^verbatim>\<open>try\<close> and answered by its \<^verbatim>\<open>catch\<close>.
\<close>

definition register_check ::
  "(string \<Rightarrow> string) \<Rightarrow> store \<Rightarrow> register_body \<Rightarrow> fault \<Rightarrow> response + string" where
  "register_check hash db b f =
     (if strict_unequal (body_password b) (body_confirmPassword b)
      then Inl \<lparr>status = 400, body = error_json ''Passwords do not match''\<rparr>
      else
        (case bcrypt_hash hash (body_password b) of
           Inl msg \<Rightarrow> Inl \<lparr>status = 500, body = error_json msg\<rparr>
         | Inr hashedPassword \<Rightarrow>
             (case select_user_by_email db (body_email b) f of
                Inl msg \<Rightarrow> Inl \<lparr>status = 500, body = error_json msg\<rparr>
              | Inr (Some row) \<Rightarrow>
                  Inl \<lparr>status = 400, body = error_json ''Email already in use''\<rparr>
              | Inr None \<Rightarrow> Inr hashedPassword)))"

definition register_insert ::
  "store \<Rightarrow> register_body \<Rightarrow> string \<Rightarrow> fault \<Rightarrow> response \<times> store" where
  "register_insert db b hashedPassword f =
     (case insert_user db (body_fullname b) (body_email b) hashedPassword
             (body_dob b) (body_phone b) (body_state b) f of
        Inl msg \<Rightarrow> (\<lparr>status = 500, body = error_json msg\<rparr>, db)
      | Inr (lastID, db') \<Rightarrow>
          (\<lparr>status = 201,
            body = JObj [(''message'', JStr ''User registered successfully''),
                         (''userId'', JInt lastID)]\<rparr>, db'))"

definition post_register ::
  "(string \<Rightarrow> string) \<Rightarrow> store \<Rightarrow> register_body \<Rightarrow> fault \<Rightarrow> fault \<Rightarrow> response \<times> store" where
  "post_register hash db b f1 f2 =
     (case register_check hash db b f1 of
        Inl r \<Rightarrow> (r, db)
      | Inr hashedPassword \<Rightarrow> register_insert db b hashedPassword f2)"


text \<open>
  \<^verbatim>\<open>POST /login\<close>. The password is compared inside the asynchronous callback of
  \<^verbatim>\<open>db.get\<close>, where the handler's \<^verbatim>\<open>try\<close> no longer reaches: when \<^verbatim>\<open>bcrypt.compare\<close>
  rejects, nothing is answered and the rejection, which nobody handles, ends the process.
  That outcome is \<open>None\<close>.
\<close>

definition post_login ::
  "(string \<Rightarrow> string \<Rightarrow> bool) \<Rightarrow> store \<Rightarrow> string option \<Rightarrow> jsvalue \<Rightarrow> fault \<Rightarrow>
   response option" where
  "post_login compare db em pw f =
     (case select_user_by_email db em f of
        Inl msg \<Rightarrow> Some \<lparr>status = 500, body = error_json msg\<rparr>
      | Inr None \<Rightarrow> Some \<lparr>status = 400, body = error_json ''Invalid email or password''\<rparr>
      | Inr (Some u) \<Rightarrow>
          (case bcrypt_compare compare pw (password u) of
             None \<Rightarrow> None
           | Some isValidPassword \<Rightarrow>
               if \<not> isValidPassword
               then Some \<lparr>status = 400, body = error_json ''Invalid email or password''\<rparr>
               else Some \<lparr>status = 200,
                          body = JObj [(''message'', JStr ''Login successful''),
                                       (''userId'', JInt (users_id u)),
                                       (''email'', JStr (email u))]\<rparr>))"

text \<open>
  \<^verbatim>\<open>DELETE /users/:userId\<close>. The path parameter is text that SQLite compares with the
  INTEGER columns by its numeric value; \<open>userId\<close> is that value.

  The handler issues five statements: \<^verbatim>\<open>BEGIN TRANSACTION\<close>, the UPDATE, the DELETE and
  then either \<^verbatim>\<open>ROLLBACK\<close> or \<^verbatim>\<open>COMMIT\<close>. The three transaction statements are run
  without a callback, so the handler never learns how they went, and it answers at once
  after queueing the last of them. \<^verbatim>\<open>BEGIN\<close> only marks where the transaction starts and
  fails only inside a transaction that is already open, which no request leaves behind
  here. The closing statement can fail, as the UPDATE and the DELETE can: \<open>f3\<close> is its
  fault. A \<^verbatim>\<open>ROLLBACK\<close> that reports an error leaves what the store held at
  \<^verbatim>\<open>BEGIN\<close>, as one that works does. A \<^verbatim>\<open>COMMIT\<close> that fails commits nothing: the
  store keeps what it held at \<^verbatim>\<open>BEGIN\<close>, although the answer 200 has been sent.
\<close>

definition rollback :: "store \<Rightarrow> store \<Rightarrow> fault \<Rightarrow> store" where
  "rollback begun current f = begun"

definition commit :: "store \<Rightarrow> store \<Rightarrow> fault \<Rightarrow> store" where
  "commit begun current f = (case f of None \<Rightarrow> current | Some msg \<Rightarrow> begun)"

definition delete_users :: "store \<Rightarrow> int \<Rightarrow> fault \<Rightarrow> fault \<Rightarrow> fault \<Rightarrow> response \<times> store" where
  "delete_users db userId f1 f2 f3 =
     (let begun = db in
      case update_donor_null db userId f1 of
        Inl msg \<Rightarrow> (\<lparr>status = 500, body = error_json msg\<rparr>, rollback begun db f3)
      | Inr db1 \<Rightarrow>
          (case delete_user db1 userId f2 of
             Inl msg \<Rightarrow> (\<lparr>status = 500, body = error_json msg\<rparr>, rollback begun db1 f3)
           | Inr (changes, db2) \<Rightarrow>
               if changes = 0
               then (\<lparr>status = 404, body = error_json ''User not found''\<rparr>,
                     rollback begun db2 f3)
               else (\<lparr>status = 200,
                      body = JObj [(''message'', JStr ''Account deleted successfully'')]\<rparr>,
                     commit begun db2 f3)))"

text \<open>\<^verbatim>\<open>GET /users/:userId/donations\<close>\<close>

definition get_users_donations :: "store \<Rightarrow> int \<Rightarrow> fault \<Rightarrow> response" where
  "get_users_donations db userId f =
     (case select_donations db userId f of
        Inl msg \<Rightarrow> \<lparr>status = 500, body = error_json msg\<rparr>
      | Inr donations \<Rightarrow> \<lparr>status = 200, body = JArr (map donation_json donations)\<rparr>)"

text \<open>\<^verbatim>\<open>POST /donate\<close>\<close>

definition post_donate :: "store \<Rightarrow> string \<Rightarrow> donate_body \<Rightarrow> fault \<Rightarrow> fault \<Rightarrow> response \<times> store" where
  "post_donate db now b f1 f2 =
     (case select_user_by_email db (body_donor_email b) f1 of
        Inl msg \<Rightarrow> (\<lparr>status = 500, body = error_json msg\<rparr>, db)
      | Inr u \<Rightarrow>
          (let donor = (case u of None \<Rightarrow> None | Some row \<Rightarrow> Some (users_id row)) in
           case insert_medicine db now (body_medicineName b) (body_expiry_date b)
                  (body_quantity b) donor (body_donor_email b) f2 of
             Inl msg \<Rightarrow> (\<lparr>status = 500, body = error_json msg\<rparr>, db)
           | Inr (lastID, db') \<Rightarrow>
               (\<lparr>status = 201,
                 body = JObj [(''message'', JStr ''Medicine donated successfully''),
                              (''donationId'', JInt lastID)]\<rparr>, db')))"

text \<open>\<^verbatim>\<open>GET /medicines\<close>\<close>

definition get_medicines :: "store \<Rightarrow> fault \<Rightarrow> response" where
  "get_medicines db f =
     (case select_medicines db f of
        Inl msg \<Rightarrow> \<lparr>status = 500, body = error_json msg\<rparr>
      | Inr rows \<Rightarrow> \<lparr>status = 200, body = JArr (map medicine_json rows)\<rparr>)"

text \<open>
  The server handles one request after another; each request carries what the environment
  decides for it (the hash function, the clock, the engine's faults). The answer is
  \<open>None\<close> when the request gets none. The store is the database file: it is there for
  the next request also when the process had to be started again.
\<close>

datatype request =
    Post_register "string \<Rightarrow> string" register_body fault fault
  | Post_login "string \<Rightarrow> string \<Rightarrow> bool" "string option" jsvalue fault
  | Delete_users int fault fault fault
  | Get_users_donations int fault
  | Post_donate string donate_body fault fault
  | Get_medicines fault

fun handle :: "store \<Rightarrow> request \<Rightarrow> response option \<times> store" where
  "handle db (Post_register hash b f1 f2) =
     (Some (fst (post_register hash db b f1 f2)), snd (post_register hash db b f1 f2))"
| "handle db (Post_login compare em pw f) = (post_login compare db em pw f, db)"
| "handle db (Delete_users userId f1 f2 f3) =
     (Some (fst (delete_users db userId f1 f2 f3)), snd (delete_users db userId f1 f2 f3))"
| "handle db (Get_users_donations userId f) = (Some (get_users_donations db userId f), db)"
| "handle db (Post_donate now b f1 f2) =
     (Some (fst (post_donate db now b f1 f2)), snd (post_donate db now b f1 f2))"
| "handle db (Get_medicines f) = (Some (get_medicines db f), db)"

fun serve :: "store \<Rightarrow> request list \<Rightarrow> store" where
  "serve db [] = db"
| "serve db (r # rs) = serve (snd (handle db r)) rs"

section \<open>A small ledger for the examples\<close>

definition toy_hash :: "string \<Rightarrow> string" where
  "toy_hash pw = CHR ''#'' # pw"

definition toy_compare :: "string \<Rightarrow> string \<Rightarrow> bool" where
  "toy_compare pw h = (h = CHR ''#'' # pw)"

definition alice_body :: register_body where
  "alice_body = \<lparr>body_fullname = Some ''Alice'', body_email = Some ''a@x.com'',
                  body_password = JsString ''pw1'', body_confirmPassword = JsString ''pw1'',
                  body_dob = Some ''1990-01-01'', body_phone = Some ''555'',
                  body_state = Some ''CA''\<rparr>"

definition aspirin_body :: donate_body where
  "aspirin_body = \<lparr>body_medicineName = Some ''Aspirin'', body_expiry_date = Some ''2025-01-01'',
                    body_quantity = Some (SqlInteger 10),
                    body_donor_email = Some ''a@x.com''\<rparr>"

definition ibuprofen_body :: donate_body where
  "ibuprofen_body = \<lparr>body_medicineName = Some ''Ibuprofen'', body_expiry_date = Some ''2026-03-01'',
                      body_quantity = Some (SqlInteger 5),
                      body_donor_email = Some ''z@x.com''\<rparr>"

definition alice :: user where
  "alice = \<lparr>users_id = 1, fullname = ''Alice'', email = ''a@x.com'', password = ''#pw1'',
             dob = ''1990-01-01'', phone = ''555'', state = ''CA''\<rparr>"

definition aspirin :: medicine where
  "aspirin = \<lparr>medicines_id = 1, name = ''Aspirin'', expiry_date = ''2025-01-01'',
               quantity = SqlInteger 10, donor_id = Some 1, donor_email = Some ''a@x.com'',
               donation_date = ''2024-06-01 10:00:00''\<rparr>"

definition ibuprofen :: medicine where
  "ibuprofen = \<lparr>medicines_id = 2, name = ''Ibuprofen'', expiry_date = ''2026-03-01'',
                 quantity = SqlInteger 5, donor_id = None, donor_email = Some ''z@x.com'',
                 donation_date = ''2024-06-02 09:30:00''\<rparr>"

text \<open>Alice registers and donates; somebody without an account donates a day later.\<close>

definition ledger :: store where
  "ledger = serve createTables
     [Post_register toy_hash alice_body None None,
      Post_donate ''2024-06-01 10:00:00'' aspirin_body None None,
      Post_donate ''2024-06-02 09:30:00'' ibuprofen_body None None]"

text \<open>
  What the specification asks of a quantity. Nothing in the program computes it; it is
  there to say what the program does not guarantee.
\<close>

definition positive_integer :: "sqlvalue \<Rightarrow> bool" where
  "positive_integer q = (case q of SqlInteger i \<Rightarrow> 0 < i | _ \<Rightarrow> False)"

text \<open>What the schema's PRIMARY KEY and UNIQUE constraints say of a store.\<close>

definition primary_keys :: "store \<Rightarrow> bool" where
  "primary_keys db \<longleftrightarrow>
     distinct (map users_id (users db)) \<and> distinct (map email (users db)) \<and>
     distinct (map medicines_id (medicines db))"

section \<open>Evaluating the model\<close>

lemmas statements = select_user_by_email_def insert_user_def insert_medicine_def
  update_donor_null_def delete_user_def select_donations_def select_medicines_def
  left_join_users_def order_by_desc_def next_rowid_def

lemmas handlers = strict_unequal_def bcrypt_hash_def bcrypt_compare_def register_check_def
  register_insert_def post_register_def post_login_def delete_users_def rollback_def
  commit_def get_users_donations_def post_donate_def get_medicines_def

lemmas examples = createTables_def toy_hash_def toy_compare_def alice_body_def
  aspirin_body_def ibuprofen_body_def alice_def aspirin_def ibuprofen_def

lemma ledger_rows:
  "ledger = \<lparr>users = [alice], users_seq = 1, medicines = [aspirin, ibuprofen],
             medicines_seq = 2\<rparr>"
  by (simp add: ledger_def statements handlers examples)

section \<open>What each statement and handler does to the store\<close>

lemma select_user_by_email_none:
  "\<forall>u\<in>set (users db). Some (email u) \<noteq> em \<Longrightarrow> select_user_by_email db em None = Inr None"
  by (auto simp: select_user_by_email_def find_None_iff split: option.splits)

lemma select_user_by_email_some:
  "select_user_by_email db em f = Inr (Some u) \<Longrightarrow>
     u \<in> set (users db) \<and> em = Some (email u) \<and> f = None"
  by (auto simp: select_user_by_email_def find_Some_iff split: option.splits)

lemma select_user_by_email_found:
  "u \<in> set (users db) \<Longrightarrow>
     \<exists>v\<in>set (users db). email v = email u \<and>
        select_user_by_email db (Some (email u)) None = Inr (Some v)"
  by (cases "find (\<lambda>v. email v = email u) (users db)")
     (auto simp: select_user_by_email_def find_None_iff find_Some_iff)

lemma insert_user_outcome:
  assumes "insert_user db fn em pw d ph s f = Inr (i, db')"
  shows "\<exists>u. db' = db\<lparr>users := users db @ [u], users_seq := i\<rparr> \<and> users_id u = i \<and>
             em = Some (email u) \<and> password u = pw \<and>
             i = next_rowid (users_seq db) (map users_id (users db)) \<and>
             (\<forall>v\<in>set (users db). email v \<noteq> email u)"
  using assms
  by (auto simp: insert_user_def Let_def list_ex_iff split: option.splits if_splits)

lemma insert_medicine_outcome:
  assumes "insert_medicine db now n ex q did dem f = Inr (i, db')"
  shows "\<exists>m. db' = db\<lparr>medicines := medicines db @ [m], medicines_seq := i\<rparr> \<and>
             medicines_id m = i \<and> n = Some (name m) \<and> ex = Some (expiry_date m) \<and>
             q = Some (quantity m) \<and> donor_id m = did \<and> donor_email m = dem \<and>
             donation_date m = now \<and> f = None \<and>
             i = next_rowid (medicines_seq db) (map medicines_id (medicines db))"
  using assms
  by (auto simp: insert_medicine_def Let_def split: option.splits if_splits)

lemma delete_users_outcome:
  assumes "delete_users db userId f1 f2 f3 = (r, db')"
  shows "(status r = 200 \<and> f1 = None \<and> f2 = None \<and> f3 = None \<and>
          (\<exists>u\<in>set (users db). users_id u = userId) \<and>
          db' = db\<lparr>medicines :=
                     map (\<lambda>m. if donor_id m = Some userId then m\<lparr>donor_id := None\<rparr> else m)
                       (medicines db),
                   users := filter (\<lambda>u. users_id u \<noteq> userId) (users db)\<rparr>)
       \<or> (status r = 200 \<and> f1 = None \<and> f2 = None \<and> f3 \<noteq> None \<and>
          (\<exists>u\<in>set (users db). users_id u = userId) \<and> db' = db)
       \<or> (status r \<noteq> 200 \<and> db' = db)"
  using assms
  by (auto simp: delete_users_def update_donor_null_def delete_user_def rollback_def commit_def
      Let_def filter_empty_conv split: option.splits if_splits)

lemma post_register_outcome:
  assumes "post_register hash db b f1 f2 = (r, db')"
  shows "(status r = 201 \<and>
           (\<exists>pw. body_password b = JsString pw \<and> body_confirmPassword b = JsString pw) \<and>
           (\<exists>u. db' = db\<lparr>users := users db @ [u], users_seq := users_id u\<rparr> \<and>
                 body_email b = Some (email u) \<and>
                 users_id u = next_rowid (users_seq db) (map users_id (users db)) \<and>
                 (\<forall>v\<in>set (users db). email v \<noteq> email u)))
       \<or> (status r \<noteq> 201 \<and> db' = db)"
proof (cases "register_check hash db b f1")
  case (Inl a)
  with assms show ?thesis
    by (auto simp: post_register_def register_check_def
        split: if_splits sum.splits option.splits)
next
  case checked: (Inr h)
  then have pw: "\<exists>pw. body_password b = JsString pw \<and> body_confirmPassword b = JsString pw"
    by (auto simp: register_check_def strict_unequal_def bcrypt_hash_def
        split: if_splits sum.splits option.splits jsvalue.splits)
  show ?thesis
  proof (cases "insert_user db (body_fullname b) (body_email b) h
             (body_dob b) (body_phone b) (body_state b) f2")
    case (Inl msg)
    with checked assms show ?thesis
      by (auto simp: post_register_def register_insert_def)
  next
    case (Inr p)
    obtain i db2 where p: "p = (i, db2)" by (cases p)
    from insert_user_outcome [OF Inr [unfolded p]] checked assms Inr p pw show ?thesis
      by (auto simp: post_register_def register_insert_def)
  qed
qed

lemma post_donate_outcome:
  assumes "post_donate db now b f1 f2 = (r, db')"
  shows "(status r = 201 \<and> f1 = None \<and> f2 = None \<and>
           (\<exists>m. db' = db\<lparr>medicines := medicines db @ [m], medicines_seq := medicines_id m\<rparr> \<and>
                 r = \<lparr>status = 201,
                      body = JObj [(''message'', JStr ''Medicine donated successfully''),
                                   (''donationId'', JInt (medicines_id m))]\<rparr> \<and>
                 medicines_id m =
                   next_rowid (medicines_seq db) (map medicines_id (medicines db)) \<and>
                 body_medicineName b = Some (name m) \<and>
                 body_expiry_date b = Some (expiry_date m) \<and>
                 body_quantity b = Some (quantity m) \<and> donor_email m = body_donor_email b \<and>
                 donation_date m = now \<and>
                 donor_id m =
                   (case find (\<lambda>u. Some (email u) = body_donor_email b) (users db) of
                      None \<Rightarrow> None | Some u \<Rightarrow> Some (users_id u))))
       \<or> (status r \<noteq> 201 \<and> db' = db)"
proof (cases "select_user_by_email db (body_donor_email b) f1")
  case (Inl msg)
  with assms show ?thesis by (auto simp: post_donate_def)
next
  case (Inr u)
  define donor where "donor = (case u of None \<Rightarrow> None | Some row \<Rightarrow> Some (users_id row))"
  show ?thesis
  proof (cases "insert_medicine db now (body_medicineName b) (body_expiry_date b)
                  (body_quantity b) donor (body_donor_email b) f2")
    case (Inl msg)
    with Inr assms show ?thesis by (auto simp: post_donate_def donor_def Let_def)
  next
    case ins: (Inr p)
    obtain i db2 where p: "p = (i, db2)" by (cases p)
    from Inr have f1: "f1 = None"
      and u: "u = (case body_donor_email b of None \<Rightarrow> None
                   | Some a \<Rightarrow> find (\<lambda>u. email u = a) (users db))"
      by (auto simp: select_user_by_email_def split: option.splits)
    have fnd: "find (\<lambda>u. Some (email u) = body_donor_email b) (users db) = u"
      unfolding u by (cases "body_donor_email b") (auto simp: find_None_iff)
    from insert_medicine_outcome [OF ins [unfolded p]] Inr assms ins p f1 fnd show ?thesis
      by (auto simp: post_donate_def donor_def Let_def split: option.splits)
  qed
qed

section \<open>The constraints of the schema hold in every store the server reaches\<close>

lemma fold_max_upper: "x \<in> set ids \<Longrightarrow> x \<le> fold max ids (seq::int)"
proof -
  assume "x \<in> set ids"
  then have "x \<le> Max (set (seq # ids))" by simp
  also have "Max (set (seq # ids)) = fold max ids seq" by (rule Max.set_eq_fold)
  finally show ?thesis .
qed

lemma next_rowid_fresh: "next_rowid seq ids \<notin> set ids"
  using fold_max_upper [of "next_rowid seq ids" ids seq] by (auto simp: next_rowid_def)

lemma primary_keys_handle:
  assumes "primary_keys db"
  shows "primary_keys (snd (handle db r))"
proof (cases r)
  case (Post_register hash b f1 f2)
  obtain q db' where q: "post_register hash db b f1 f2 = (q, db')"
    by (cases "post_register hash db b f1 f2")
  from post_register_outcome [OF q] assms Post_register q show ?thesis
    using next_rowid_fresh [of "users_seq db" "map users_id (users db)"]
    by (force simp: primary_keys_def)
next
  case (Post_login compare em pw f)
  with assms show ?thesis by simp
next
  case (Delete_users userId f1 f2 f3)
  obtain q db' where q: "delete_users db userId f1 f2 f3 = (q, db')"
    by (cases "delete_users db userId f1 f2 f3")
  from delete_users_outcome [OF q] consider
    (cleared) "db' = db\<lparr>medicines :=
                     map (\<lambda>m. if donor_id m = Some userId then m\<lparr>donor_id := None\<rparr> else m)
                       (medicines db),
                   users := filter (\<lambda>u. users_id u \<noteq> userId) (users db)\<rparr>"
    | (restored) "db' = db"
    by blast
  then have "primary_keys db'"
  proof cases
    case cleared
    have "map medicines_id (medicines db') = map medicines_id (medicines db)"
      by (simp add: cleared)
    moreover have "distinct (map users_id (users db'))" "distinct (map email (users db'))"
      using assms by (simp_all add: cleared primary_keys_def distinct_map_filter)
    ultimately show ?thesis using assms by (simp add: primary_keys_def)
  next
    case restored
    with assms show ?thesis by simp
  qed
  with Delete_users q show ?thesis by simp
next
  case (Get_users_donations userId f)
  with assms show ?thesis by simp
next
  case (Post_donate now b f1 f2)
  obtain q db' where q: "post_donate db now b f1 f2 = (q, db')"
    by (cases "post_donate db now b f1 f2")
  from post_donate_outcome [OF q] assms Post_donate q show ?thesis
    using next_rowid_fresh [of "medicines_seq db" "map medicines_id (medicines db)"]
    by (auto simp: primary_keys_def)
next
  case (Get_medicines f)
  with assms show ?thesis by simp
qed

lemma primary_keys_serve: "primary_keys db \<Longrightarrow> primary_keys (serve db rs)"
  by (induction rs arbitrary: db) (simp_all add: primary_keys_handle)

lemma primary_keys_reachable: "primary_keys (serve createTables rs)"
  by (rule primary_keys_serve) (simp add: primary_keys_def createTables_def)

section \<open>Login\<close>

text \<open>
  With a password that is a string, a login whose email matches no account and a login
  whose email matches an account but whose password does not verify get the very same
  answer: status 400 with the one message \<open>Invalid email or password\<close>.
\<close>

lemma login_string_failures_identical:
  assumes "\<forall>u\<in>set (users db1). Some (email u) \<noteq> em1"
    and "u \<in> set (users db2)"
    and "\<forall>v\<in>set (users db2). email v = email u \<longrightarrow> \<not> compare2 pw2 (password v)"
  shows "post_login compare1 db1 em1 pw1 None =
           Some \<lparr>status = 400, body = error_json ''Invalid email or password''\<rparr>
       \<and> post_login compare2 db2 (Some (email u)) (JsString pw2) None =
           Some \<lparr>status = 400, body = error_json ''Invalid email or password''\<rparr>"
proof -
  from assms(1) have "select_user_by_email db1 em1 None = Inr None"
    by (rule select_user_by_email_none)
  then have unknown: "post_login compare1 db1 em1 pw1 None =
      Some \<lparr>status = 400, body = error_json ''Invalid email or password''\<rparr>"
    by (simp add: post_login_def)
  from assms(2) obtain v where v: "v \<in> set (users db2)" "email v = email u"
    "select_user_by_email db2 (Some (email u)) None = Inr (Some v)"
    using select_user_by_email_found by blast
  with assms(3) have "\<not> compare2 pw2 (password v)" by blast
  with v(3) have wrong: "post_login compare2 db2 (Some (email u)) (JsString pw2) None =
      Some \<lparr>status = 400, body = error_json ''Invalid email or password''\<rparr>"
    by (simp add: post_login_def bcrypt_compare_def)
  from unknown wrong show ?thesis by simp
qed

text \<open>
  With a password that is missing or not a string the two cases part: an unknown email
  is still answered with the 400, a known one is not answered at all.
\<close>

lemma login_without_string_password:
  assumes "\<And>s. pw \<noteq> JsString s"
  shows "(\<forall>u\<in>set (users db). Some (email u) \<noteq> em) \<longrightarrow>
           post_login compare db em pw None =
             Some \<lparr>status = 400, body = error_json ''Invalid email or password''\<rparr>"
    and "u \<in> set (users db) \<longrightarrow> post_login compare db (Some (email u)) pw None = None"
proof -
  show "(\<forall>u\<in>set (users db). Some (email u) \<noteq> em) \<longrightarrow>
           post_login compare db em pw None =
             Some \<lparr>status = 400, body = error_json ''Invalid email or password''\<rparr>"
    by (auto simp: post_login_def dest: select_user_by_email_none)
  have "bcrypt_compare compare pw h = None" for h
    using assms by (cases pw) (auto simp: bcrypt_compare_def)
  then show "u \<in> set (users db) \<longrightarrow> post_login compare db (Some (email u)) pw None = None"
    using select_user_by_email_found [of u db] by (auto simp: post_login_def)
qed

text \<open>
  Claim C7 asks for the identical \<open>Invalid email or password\<close> answer whether the email
  is unknown or the password does not verify. The handler gives it for every password
  that is a string and misses the password that is not: a login for Alice's address that
  carries no password gets no answer and ends the process, the same login for an address
  nobody registered gets the 400. The two failures can be told apart.
\<close>

theorem login_failures_told_apart:
  "post_login toy_compare ledger (Some ''b@x.com'') JsUndefined None =
     Some \<lparr>status = 400, body = error_json ''Invalid email or password''\<rparr>
   \<and> post_login toy_compare ledger (Some ''a@x.com'') JsUndefined None = None
   \<and> post_login toy_compare ledger (Some ''a@x.com'') (JsString ''pw2'') None =
     Some \<lparr>status = 400, body = error_json ''Invalid email or password''\<rparr>"
  by (simp add: ledger_rows alice_def toy_compare_def post_login_def bcrypt_compare_def
      select_user_by_email_def)

text \<open>
  Claim C8. Whenever a login succeeds (status 200), the body is the object with the three
  fields \<open>message\<close>, \<open>userId\<close> and \<open>email\<close>, where the id and the email are those of an
  account whose email is the one sent and whose stored hash verifies the password. The
  stored hash is not a field of the body, and neither is the password that was sent.
\<close>

theorem login_success_body:
  assumes "post_login compare db em pw f = Some r" and "status r = 200"
  shows "\<exists>u\<in>set (users db). em = Some (email u) \<and>
           (\<exists>s. pw = JsString s \<and> compare s (password u)) \<and>
           r = \<lparr>status = 200,
                body = JObj [(''message'', JStr ''Login successful''),
                             (''userId'', JInt (users_id u)), (''email'', JStr (email u))]\<rparr>"
proof (cases "select_user_by_email db em f")
  case (Inl msg)
  with assms show ?thesis by (auto simp: post_login_def)
next
  case (Inr found)
  show ?thesis
  proof (cases found)
    case None
    with Inr assms show ?thesis by (auto simp: post_login_def)
  next
    case (Some u)
    with Inr have "u \<in> set (users db) \<and> em = Some (email u) \<and> f = None"
      using select_user_by_email_some by blast
    moreover from Some Inr assms have "\<exists>s. pw = JsString s \<and> compare s (password u)"
      by (auto simp: post_login_def bcrypt_compare_def
          split: if_splits option.splits jsvalue.splits)
    moreover from Some Inr assms
    have "r = \<lparr>status = 200,
                body = JObj [(''message'', JStr ''Login successful''),
                             (''userId'', JInt (users_id u)), (''email'', JStr (email u))]\<rparr>"
      by (auto simp: post_login_def split: if_splits option.splits)
    ultimately show ?thesis by blast
  qed
qed

theorem login_success_body_witness:
  "post_login toy_compare ledger (Some ''a@x.com'') (JsString ''pw1'') None
     = Some \<lparr>status = 200,
             body = JObj [(''message'', JStr ''Login successful''),
                          (''userId'', JInt 1), (''email'', JStr ''a@x.com'')]\<rparr>"
proof -
  obtain r where run:
    "post_login toy_compare ledger (Some ''a@x.com'') (JsString ''pw1'') None = Some r"
    by (simp add: ledger_rows alice_def toy_compare_def post_login_def bcrypt_compare_def
        select_user_by_email_def)
  then have ok: "status r = 200"
    by (auto simp: ledger_rows alice_def toy_compare_def post_login_def bcrypt_compare_def
        select_user_by_email_def)
  from login_success_body [OF run ok] run show ?thesis
    by (auto simp: ledger_rows alice_def)
qed

section \<open>Deleting an account\<close>

text \<open>
  Claim C2. Deleting an account is all or nothing for the store, whichever of the
  statements fails. Either every statement worked, the account existed, its row is gone
  and every donation that referred to it has had its donor reference cleared; or the
  store is exactly the one the request found. A failure of the UPDATE, of the DELETE or
  of the closing ROLLBACK or COMMIT always ends in the second case, and so does every
  answer other than 200. The donation records are the same records as before, in the
  same order, but for their donor reference: none is deleted. (The answer is no guide to
  the first case: when only the COMMIT fails, the store is unchanged and the answer is
  200.)
\<close>

theorem delete_account_atomic:
  assumes "delete_users db userId f1 f2 f3 = (r, db')"
  shows "((f1 = None \<and> f2 = None \<and> f3 = None \<and> status r = 200 \<and>
           (\<exists>u\<in>set (users db). users_id u = userId) \<and>
           users db' = filter (\<lambda>u. users_id u \<noteq> userId) (users db) \<and>
           medicines db' =
             map (\<lambda>m. if donor_id m = Some userId then m\<lparr>donor_id := None\<rparr> else m)
               (medicines db))
          \<or> db' = db)
       \<and> (f1 \<noteq> None \<or> f2 \<noteq> None \<or> f3 \<noteq> None \<longrightarrow> db' = db)
       \<and> (status r \<noteq> 200 \<longrightarrow> db' = db)
       \<and> (f1 = None \<and> f2 = None \<and> f3 \<noteq> None \<and> (\<exists>u\<in>set (users db). users_id u = userId) \<longrightarrow>
            status r = 200 \<and> db' = db)
       \<and> map (\<lambda>m. m\<lparr>donor_id := None\<rparr>) (medicines db') =
           map (\<lambda>m. m\<lparr>donor_id := None\<rparr>) (medicines db)"
proof -
  from delete_users_outcome [OF assms] consider
    (committed) "status r = 200" "f1 = None" "f2 = None" "f3 = None"
      "\<exists>u\<in>set (users db). users_id u = userId"
      "db' = db\<lparr>medicines :=
                     map (\<lambda>m. if donor_id m = Some userId then m\<lparr>donor_id := None\<rparr> else m)
                       (medicines db),
                   users := filter (\<lambda>u. users_id u \<noteq> userId) (users db)\<rparr>"
    | (lost) "status r = 200" "f1 = None" "f2 = None" "f3 \<noteq> None" "db' = db"
    | (refused) "status r \<noteq> 200" "db' = db"
    by blast
  then show ?thesis
  proof cases
    case committed
    then show ?thesis by auto
  next
    case lost
    then show ?thesis by simp
  next
    case refused
    have "status r = 200" if "f1 = None" "f2 = None" "\<exists>u\<in>set (users db). users_id u = userId"
      using assms that
      by (auto simp: delete_users_def update_donor_null_def delete_user_def Let_def
          filter_empty_conv split: if_splits)
    with refused show ?thesis by auto
  qed
qed

theorem delete_account_atomic_witness:
  "delete_users ledger 1 None None None =
     (\<lparr>status = 200, body = JObj [(''message'', JStr ''Account deleted successfully'')]\<rparr>,
      \<lparr>users = [], users_seq = 1, medicines = [aspirin\<lparr>donor_id := None\<rparr>, ibuprofen],
       medicines_seq = 2\<rparr>)
   \<and> delete_users ledger 1 None (Some ''disk I/O error'') None =
     (\<lparr>status = 500, body = error_json ''disk I/O error''\<rparr>, ledger)
   \<and> delete_users ledger 1 None None (Some ''database is locked'') =
     (\<lparr>status = 200, body = JObj [(''message'', JStr ''Account deleted successfully'')]\<rparr>,
      ledger)
   \<and> map (\<lambda>m. m\<lparr>donor_id := None\<rparr>) (medicines (snd (delete_users ledger 1 None None None))) =
       map (\<lambda>m. m\<lparr>donor_id := None\<rparr>) (medicines ledger)"
proof -
  have run: "delete_users ledger 1 None None None =
     (\<lparr>status = 200, body = JObj [(''message'', JStr ''Account deleted successfully'')]\<rparr>,
      \<lparr>users = [], users_seq = 1, medicines = [aspirin\<lparr>donor_id := None\<rparr>, ibuprofen],
       medicines_seq = 2\<rparr>)"
    by (simp add: ledger_rows statements handlers examples)
  have failed: "delete_users ledger 1 None (Some ''disk I/O error'') None =
     (\<lparr>status = 500, body = error_json ''disk I/O error''\<rparr>, ledger)"
    by (simp add: ledger_rows statements handlers examples)
  obtain r db' where lost: "delete_users ledger 1 None None (Some ''database is locked'') = (r, db')"
    by (cases "delete_users ledger 1 None None (Some ''database is locked'')")
  then have answer: "r = \<lparr>status = 200,
      body = JObj [(''message'', JStr ''Account deleted successfully'')]\<rparr>"
    by (auto simp: ledger_rows statements handlers examples)
  from delete_account_atomic [OF lost] have "db' = ledger" by simp
  with lost answer delete_account_atomic [OF run] run failed show ?thesis by simp
qed

text \<open>
  Claim C9. When no account has the id, the answer is 404 \<open>User not found\<close> and the
  store is unchanged: the clearing of donor references that ran before the missing row
  was noticed is rolled back. With an engine failure on the way the answer is 500
  instead, and the store is unchanged as well.
\<close>

theorem delete_unknown_account:
  assumes "\<forall>u\<in>set (users db). users_id u \<noteq> userId"
  shows "delete_users db userId None None f3 =
           (\<lparr>status = 404, body = error_json ''User not found''\<rparr>, db)
       \<and> snd (delete_users db userId f1 f2 f3) = db
       \<and> status (fst (delete_users db userId f1 f2 f3)) \<in> {404, 500}"
proof -
  from assms have none: "filter (\<lambda>u. users_id u = userId) (users db) = []"
    by (simp add: filter_empty_conv)
  then show ?thesis
    by (auto simp: delete_users_def update_donor_null_def delete_user_def rollback_def
        commit_def Let_def split: option.splits)
qed

theorem delete_unknown_account_witness:
  "delete_users (ledger\<lparr>users := []\<rparr>) 1 None None None =
     (\<lparr>status = 404, body = error_json ''User not found''\<rparr>, ledger\<lparr>users := []\<rparr>)
   \<and> donor_id (hd (medicines (snd (delete_users (ledger\<lparr>users := []\<rparr>) 1 None None None))))
       = Some 1
   \<and> delete_users ledger 7 None None None =
     (\<lparr>status = 404, body = error_json ''User not found''\<rparr>, ledger)"
  using delete_unknown_account [of "ledger\<lparr>users := []\<rparr>" 1 None None None]
    delete_unknown_account [of ledger 7 None None None]
  by (simp add: ledger_rows alice_def aspirin_def)

section \<open>The listings\<close>

lemma set_order_by_desc [simp]: "set (order_by_desc k rows) = set rows"
  by (simp add: order_by_desc_def)

lemma mset_order_by_desc [simp]: "mset (order_by_desc k rows) = mset rows"
  by (simp add: order_by_desc_def)


lemma left_join_users_anonymous: "donor_id m = None \<Longrightarrow> left_join_users us m = [(m, None)]"
  by (simp add: left_join_users_def)




text \<open>
  Claim C1. After a successful delete of account \<open>userId\<close> (answered 200, its COMMIT
  having worked), the donation history of \<open>userId\<close> is the empty array, and the list
  of available medicines has, for every donation that referred to \<open>userId\<close> before, the
  row of that same record with a null donor_name; the record's other columns,
  donor_email among them, are as they were.
\<close>

theorem deleted_account_donations:
  assumes "delete_users db userId f1 f2 None = (r, db')" and "status r = 200"
  shows "get_users_donations db' userId None = \<lparr>status = 200, body = JArr []\<rparr>
       \<and> (\<exists>rows. get_medicines db' None =
                    \<lparr>status = 200, body = JArr (map medicine_json rows)\<rparr>
            \<and> (\<forall>m\<in>set (medicines db). donor_id m = Some userId \<longrightarrow>
                  (m\<lparr>donor_id := None\<rparr>, None) \<in> set rows))"
proof -
  from delete_users_outcome [OF assms(1)] assms(2)
  have db': "db' = db\<lparr>medicines :=
                     map (\<lambda>m. if donor_id m = Some userId then m\<lparr>donor_id := None\<rparr> else m)
                       (medicines db),
                   users := filter (\<lambda>u. users_id u \<noteq> userId) (users db)\<rparr>"
    by auto
  have "filter (\<lambda>m. donor_id m = Some userId) (medicines db') = []"
    by (auto simp: db' filter_empty_conv)
  then have history: "get_users_donations db' userId None = \<lparr>status = 200, body = JArr []\<rparr>"
    by (simp add: get_users_donations_def select_donations_def order_by_desc_def)
  define rows where "rows = order_by_desc (\<lambda>r. donation_date (fst r))
                 (concat (map (left_join_users (users db')) (medicines db')))"
  have listing: "get_medicines db' None =
      \<lparr>status = 200, body = JArr (map medicine_json rows)\<rparr>"
    by (simp add: get_medicines_def select_medicines_def rows_def)
  have "(m\<lparr>donor_id := None\<rparr>, None) \<in> set rows"
    if "m \<in> set (medicines db)" "donor_id m = Some userId" for m
  proof -
    from that have "m\<lparr>donor_id := None\<rparr> \<in> set (medicines db')"
      by (force simp: db')
    moreover have "left_join_users (users db') (m\<lparr>donor_id := None\<rparr>) =
        [(m\<lparr>donor_id := None\<rparr>, None)]"
      by (simp add: left_join_users_anonymous)
    ultimately show ?thesis
      by (force simp: rows_def)
  qed
  with history listing show ?thesis by blast
qed

theorem deleted_account_donations_witness:
  "status (fst (delete_users ledger 1 None None None)) = 200
   \<and> get_users_donations (snd (delete_users ledger 1 None None None)) 1 None =
       \<lparr>status = 200, body = JArr []\<rparr>
   \<and> get_medicines (snd (delete_users ledger 1 None None None)) None =
       \<lparr>status = 200,
        body = JArr [medicine_json (ibuprofen, None),
                     medicine_json (aspirin\<lparr>donor_id := None\<rparr>, None)]\<rparr>
   \<and> medicine_json (aspirin\<lparr>donor_id := None\<rparr>, None) =
       JObj [(''id'', JInt 1), (''name'', JStr ''Aspirin''),
             (''expiry_date'', JStr ''2025-01-01''), (''quantity'', JInt 10),
             (''donation_date'', JStr ''2024-06-01 10:00:00''),
             (''donor_email'', JStr ''a@x.com''), (''donor_name'', JNull)]"
proof -
  obtain r db' where run: "delete_users ledger 1 None None None = (r, db')"
    by (cases "delete_users ledger 1 None None None")
  then have ok: "status r = 200"
    by (auto simp: ledger_rows statements handlers examples)
  have rows: "get_medicines (snd (delete_users ledger 1 None None None)) None =
       \<lparr>status = 200,
        body = JArr [medicine_json (ibuprofen, None),
                     medicine_json (aspirin\<lparr>donor_id := None\<rparr>, None)]\<rparr>"
    by (simp add: ledger_rows statements handlers examples)
  from deleted_account_donations [OF run ok] run ok rows show ?thesis
    by (simp add: medicine_json_def quantity_json_def nullable_def aspirin_def)
qed



section \<open>Donating\<close>

text \<open>
  Claim C3. A donation whose name, expiry date and quantity are present is recorded with
  status 201 whether or not its donor_email matches an account. The new record carries
  the donor_email exactly as sent. Its donor reference is absent when no account has that
  email, and is the id of an account with that email when there is one: of the account
  with that email, in a store that keeps the schema's keys. The status of the answer
  depends on the request and on the engine only, never on the accounts in the store: a
  missing match is not an error.
\<close>

theorem donate_attribution:
  "(body_medicineName b \<noteq> None \<and> body_expiry_date b \<noteq> None \<and> body_quantity b \<noteq> None \<longrightarrow>
     (\<exists>m. post_donate db now b None None =
              (\<lparr>status = 201,
                body = JObj [(''message'', JStr ''Medicine donated successfully''),
                             (''donationId'', JInt (medicines_id m))]\<rparr>,
               db\<lparr>medicines := medicines db @ [m], medicines_seq := medicines_id m\<rparr>)
            \<and> donor_email m = body_donor_email b
            \<and> ((\<forall>u\<in>set (users db). Some (email u) \<noteq> body_donor_email b) \<longrightarrow>
                 donor_id m = None)
            \<and> ((\<exists>u\<in>set (users db). Some (email u) = body_donor_email b) \<longrightarrow>
                 (\<exists>u\<in>set (users db). Some (email u) = body_donor_email b \<and>
                     donor_id m = Some (users_id u)))
            \<and> (primary_keys db \<longrightarrow>
                 (\<forall>u\<in>set (users db). Some (email u) = body_donor_email b \<longrightarrow>
                     donor_id m = Some (users_id u)))))
   \<and> status (fst (post_donate db' now' b f1 f2)) = status (fst (post_donate db now b f1 f2))"
proof -
  have same: "status (fst (post_donate db' now' b f1 f2)) =
      status (fst (post_donate db now b f1 f2))"
    by (auto simp: post_donate_def select_user_by_email_def insert_medicine_def Let_def
        split: option.splits)
  have recorded: "\<exists>m. post_donate db now b None None =
              (\<lparr>status = 201,
                body = JObj [(''message'', JStr ''Medicine donated successfully''),
                             (''donationId'', JInt (medicines_id m))]\<rparr>,
               db\<lparr>medicines := medicines db @ [m], medicines_seq := medicines_id m\<rparr>)
            \<and> donor_email m = body_donor_email b
            \<and> ((\<forall>u\<in>set (users db). Some (email u) \<noteq> body_donor_email b) \<longrightarrow>
                 donor_id m = None)
            \<and> ((\<exists>u\<in>set (users db). Some (email u) = body_donor_email b) \<longrightarrow>
                 (\<exists>u\<in>set (users db). Some (email u) = body_donor_email b \<and>
                     donor_id m = Some (users_id u)))
            \<and> (primary_keys db \<longrightarrow>
                 (\<forall>u\<in>set (users db). Some (email u) = body_donor_email b \<longrightarrow>
                     donor_id m = Some (users_id u)))"
    if present: "body_medicineName b \<noteq> None" "body_expiry_date b \<noteq> None"
      "body_quantity b \<noteq> None"
  proof -
    from present obtain n ex q where fields: "body_medicineName b = Some n"
      "body_expiry_date b = Some ex" "body_quantity b = Some q"
      by auto
    obtain r db1 where run: "post_donate db now b None None = (r, db1)"
      by (cases "post_donate db now b None None")
    have "status r = 201"
      using run fields
      by (auto simp: post_donate_def select_user_by_email_def insert_medicine_def Let_def
          split: option.splits)
    with post_donate_outcome [OF run] obtain m where
      m: "db1 = db\<lparr>medicines := medicines db @ [m], medicines_seq := medicines_id m\<rparr>"
        "r = \<lparr>status = 201, body = JObj [(''message'', JStr ''Medicine donated successfully''),
                                (''donationId'', JInt (medicines_id m))]\<rparr>"
        "donor_email m = body_donor_email b"
        "donor_id m = (case find (\<lambda>u. Some (email u) = body_donor_email b) (users db) of
                                   None \<Rightarrow> None | Some u \<Rightarrow> Some (users_id u))"
      by auto
    have unknown: "donor_id m = None"
      if "\<forall>u\<in>set (users db). Some (email u) \<noteq> body_donor_email b"
    proof -
      from that have "find (\<lambda>u. Some (email u) = body_donor_email b) (users db) = None"
        by (simp add: find_None_iff)
      with m(4) show ?thesis by simp
    qed
    have known: "\<exists>u\<in>set (users db). Some (email u) = body_donor_email b \<and>
                   donor_id m = Some (users_id u)"
      if "\<exists>u\<in>set (users db). Some (email u) = body_donor_email b"
    proof -
      from that obtain v where
        "find (\<lambda>u. Some (email u) = body_donor_email b) (users db) = Some v"
        by (cases "find (\<lambda>u. Some (email u) = body_donor_email b) (users db)")
           (auto simp: find_None_iff)
      with m(4) show ?thesis by (auto simp: find_Some_iff)
    qed
    have exact: "donor_id m = Some (users_id u)"
      if "primary_keys db" "u \<in> set (users db)" "Some (email u) = body_donor_email b" for u
    proof -
      from that(2,3) known obtain v where v: "v \<in> set (users db)"
        "Some (email v) = body_donor_email b" "donor_id m = Some (users_id v)"
        by blast
      from that(1) have "inj_on email (set (users db))"
        by (simp add: primary_keys_def distinct_map)
      moreover from v(2) that(3) have "email v = email u"
        by (metis option.inject)
      ultimately have "v = u"
        using v(1) that(2) by (rule inj_onD)
      with v(3) show ?thesis by simp
    qed
    from run m unknown known exact show ?thesis by blast
  qed
  from recorded same show ?thesis by blast
qed

theorem donate_attribution_witness:
  "post_donate ledger ''2024-06-03 08:00:00'' aspirin_body None None =
     (\<lparr>status = 201,
       body = JObj [(''message'', JStr ''Medicine donated successfully''),
                    (''donationId'', JInt 3)]\<rparr>,
      ledger\<lparr>medicines := medicines ledger @
                 [aspirin\<lparr>medicines_id := 3, donation_date := ''2024-06-03 08:00:00''\<rparr>],
               medicines_seq := 3\<rparr>)
   \<and> post_donate ledger ''2024-06-03 08:00:00'' ibuprofen_body None None =
     (\<lparr>status = 201,
       body = JObj [(''message'', JStr ''Medicine donated successfully''),
                    (''donationId'', JInt 3)]\<rparr>,
      ledger\<lparr>medicines := medicines ledger @
                 [ibuprofen\<lparr>medicines_id := 3, donation_date := ''2024-06-03 08:00:00''\<rparr>],
               medicines_seq := 3\<rparr>)
   \<and> status (fst (post_donate createTables ''2024-06-03 08:00:00'' aspirin_body None None)) =
       status (fst (post_donate ledger ''2024-06-03 08:00:00'' aspirin_body None None))"
proof -
  have present: "body_medicineName aspirin_body \<noteq> None" "body_expiry_date aspirin_body \<noteq> None"
    "body_quantity aspirin_body \<noteq> None"
    by (simp_all add: aspirin_body_def)
  have linked: "post_donate ledger ''2024-06-03 08:00:00'' aspirin_body None None =
     (\<lparr>status = 201,
       body = JObj [(''message'', JStr ''Medicine donated successfully''),
                    (''donationId'', JInt 3)]\<rparr>,
      ledger\<lparr>medicines := medicines ledger @
                 [aspirin\<lparr>medicines_id := 3, donation_date := ''2024-06-03 08:00:00''\<rparr>],
               medicines_seq := 3\<rparr>)"
    by (simp add: ledger_rows statements handlers examples)
  have anonymous: "post_donate ledger ''2024-06-03 08:00:00'' ibuprofen_body None None =
     (\<lparr>status = 201,
       body = JObj [(''message'', JStr ''Medicine donated successfully''),
                    (''donationId'', JInt 3)]\<rparr>,
      ledger\<lparr>medicines := medicines ledger @
                 [ibuprofen\<lparr>medicines_id := 3, donation_date := ''2024-06-03 08:00:00''\<rparr>],
               medicines_seq := 3\<rparr>)"
    by (simp add: ledger_rows statements handlers examples)
  from donate_attribution [of aspirin_body ledger "''2024-06-03 08:00:00''" createTables
      "''2024-06-03 08:00:00''" None None]
  have "status (fst (post_donate createTables ''2024-06-03 08:00:00'' aspirin_body None None)) =
       status (fst (post_donate ledger ''2024-06-03 08:00:00'' aspirin_body None None))"
    by simp
  with present linked anonymous show ?thesis by simp
qed

text \<open>
  Claim C5, as the code has it. The record that a successful donation creates has the
  quantity that the request's field was bound to, and that is never NULL. Nothing more
  holds of it: the handler passes the field on unread and the column has no constraint but
  NOT NULL, so whatever value the field is bound to is accepted with status 201 and
  stored, be it zero, negative, a fraction or text.
\<close>

theorem donate_quantity_as_sent:
  "(post_donate db now b f1 f2 = (r, db') \<and> status r = 201 \<longrightarrow>
      (\<exists>m. medicines db' = medicines db @ [m] \<and> body_quantity b = Some (quantity m)))
   \<and> (body_medicineName b \<noteq> None \<and> body_expiry_date b \<noteq> None \<and> body_quantity b = Some q \<longrightarrow>
        status (fst (post_donate db now b None None)) = 201 \<and>
        quantity (last (medicines (snd (post_donate db now b None None)))) = q)"
proof -
  have stored: "\<exists>m. medicines db' = medicines db @ [m] \<and> body_quantity b = Some (quantity m)"
    if "post_donate db now b f1 f2 = (r, db')" "status r = 201"
    using post_donate_outcome [OF that(1)] that(2) by auto
  have accepted: "status (fst (post_donate db now b None None)) = 201 \<and>
        quantity (last (medicines (snd (post_donate db now b None None)))) = q"
    if "body_medicineName b \<noteq> None" "body_expiry_date b \<noteq> None" "body_quantity b = Some q"
    using that
    by (auto simp: post_donate_def select_user_by_email_def insert_medicine_def Let_def
        split: option.splits)
  from stored accepted show ?thesis by blast
qed

theorem donate_quantity_as_sent_witness:
  "status (fst (post_donate ledger ''2024-06-03 08:00:00'' aspirin_body None None)) = 201
   \<and> body_quantity aspirin_body = Some (SqlInteger 10)
   \<and> quantity (last (medicines
        (snd (post_donate ledger ''2024-06-03 08:00:00'' aspirin_body None None)))) =
       SqlInteger 10
   \<and> quantity (last (medicines
        (snd (post_donate ledger ''2024-06-03 08:00:00''
               (aspirin_body\<lparr>body_quantity := Some (SqlText ''many'')\<rparr>) None None)))) =
       SqlText ''many''"
proof -
  have name: "body_medicineName aspirin_body \<noteq> None"
    "body_medicineName (aspirin_body\<lparr>body_quantity := Some (SqlText ''many'')\<rparr>) \<noteq> None"
    and expiry: "body_expiry_date aspirin_body \<noteq> None"
    "body_expiry_date (aspirin_body\<lparr>body_quantity := Some (SqlText ''many'')\<rparr>) \<noteq> None"
    and sent: "body_quantity aspirin_body = Some (SqlInteger 10)"
    "body_quantity (aspirin_body\<lparr>body_quantity := Some (SqlText ''many'')\<rparr>) =
       Some (SqlText ''many'')"
    by (simp_all add: aspirin_body_def)
  from donate_quantity_as_sent [of ledger "''2024-06-03 08:00:00''" aspirin_body None None
      "fst (post_donate ledger ''2024-06-03 08:00:00'' aspirin_body None None)"
      "snd (post_donate ledger ''2024-06-03 08:00:00'' aspirin_body None None)" "SqlInteger 10"]
    donate_quantity_as_sent [of ledger "''2024-06-03 08:00:00''"
      "aspirin_body\<lparr>body_quantity := Some (SqlText ''many'')\<rparr>" None None
      "fst (post_donate ledger ''2024-06-03 08:00:00'' aspirin_body None None)"
      "snd (post_donate ledger ''2024-06-03 08:00:00'' aspirin_body None None)"
      "SqlText ''many''"]
    name expiry sent
  show ?thesis by simp
qed

text \<open>
  Claim C5 as the specification words it, that the quantity of a record created by a
  successful donation is a positive integer, fails: a donation of \<open>-3\<close> units is
  accepted with status 201 and stored, and so are a donation of two and a half units and
  a donation of \<open>many\<close>.
\<close>

theorem donate_quantity_not_positive:
  "status (fst (post_donate createTables ''2025-01-01 00:00:00''
      \<lparr>body_medicineName = Some ''Aspirin'', body_expiry_date = Some ''2025-01-01'',
       body_quantity = Some (SqlInteger (- 3)), body_donor_email = Some ''a@x.com''\<rparr>
      None None)) = 201
   \<and> quantity (last (medicines (snd (post_donate createTables ''2025-01-01 00:00:00''
      \<lparr>body_medicineName = Some ''Aspirin'', body_expiry_date = Some ''2025-01-01'',
       body_quantity = Some (SqlInteger (- 3)), body_donor_email = Some ''a@x.com''\<rparr>
      None None)))) = SqlInteger (- 3)
   \<and> \<not> positive_integer (quantity (last (medicines (snd (post_donate createTables
      ''2025-01-01 00:00:00''
      \<lparr>body_medicineName = Some ''Aspirin'', body_expiry_date = Some ''2025-01-01'',
       body_quantity = Some (SqlInteger (- 3)), body_donor_email = Some ''a@x.com''\<rparr>
      None None)))))
   \<and> status (fst (post_donate createTables ''2025-01-01 00:00:00''
      \<lparr>body_medicineName = Some ''Aspirin'', body_expiry_date = Some ''2025-01-01'',
       body_quantity = Some (SqlReal (5 / 2)), body_donor_email = Some ''a@x.com''\<rparr>
      None None)) = 201
   \<and> \<not> positive_integer (quantity (last (medicines (snd (post_donate createTables
      ''2025-01-01 00:00:00''
      \<lparr>body_medicineName = Some ''Aspirin'', body_expiry_date = Some ''2025-01-01'',
       body_quantity = Some (SqlReal (5 / 2)), body_donor_email = Some ''a@x.com''\<rparr>
      None None)))))
   \<and> status (fst (post_donate createTables ''2025-01-01 00:00:00''
      \<lparr>body_medicineName = Some ''Aspirin'', body_expiry_date = Some ''2025-01-01'',
       body_quantity = Some (SqlText ''many''), body_donor_email = Some ''a@x.com''\<rparr>
      None None)) = 201
   \<and> \<not> positive_integer (quantity (last (medicines (snd (post_donate createTables
      ''2025-01-01 00:00:00''
      \<lparr>body_medicineName = Some ''Aspirin'', body_expiry_date = Some ''2025-01-01'',
       body_quantity = Some (SqlText ''many''), body_donor_email = Some ''a@x.com''\<rparr>
      None None)))))"
  by (simp add: post_donate_def select_user_by_email_def insert_medicine_def createTables_def
      Let_def next_rowid_def positive_integer_def)

section \<open>Registering\<close>





text \<open>
  Two registrations with the same matching password that is not a string are both
  answered with status 500: \<^verbatim>\<open>bcrypt.hash\<close> rejects before the existence check is made.
\<close>

lemma register_without_string_password:
  "post_register toy_hash ledger
     (alice_body\<lparr>body_password := JsUndefined, body_confirmPassword := JsUndefined\<rparr>) None None =
     (\<lparr>status = 500, body = error_json ''data and salt arguments required''\<rparr>, ledger)"
  by (simp add: post_register_def register_check_def strict_unequal_def bcrypt_hash_def
      alice_body_def)



section \<open>The donor reference of a donation record\<close>

lemma handle_step:
  assumes "i < length (medicines db)"
  shows "i < length (medicines (snd (handle db r))) \<and>
         (medicines (snd (handle db r)) ! i = medicines db ! i \<or>
          (\<exists>userId. r = Delete_users userId None None None \<and>
              map_option status (fst (handle db r)) = Some 200 \<and>
              donor_id (medicines db ! i) = Some userId \<and>
              medicines (snd (handle db r)) ! i = (medicines db ! i)\<lparr>donor_id := None\<rparr>))"
proof (cases r)
  case (Post_register hash b f1 f2)
  obtain q db' where q: "post_register hash db b f1 f2 = (q, db')"
    by (cases "post_register hash db b f1 f2")
  from post_register_outcome [OF q] have "medicines db' = medicines db" by auto
  with Post_register q assms show ?thesis by simp
next
  case (Post_login compare em pw f)
  with assms show ?thesis by simp
next
  case (Delete_users userId f1 f2 f3)
  obtain q db' where q: "delete_users db userId f1 f2 f3 = (q, db')"
    by (cases "delete_users db userId f1 f2 f3")
  from delete_users_outcome [OF q] Delete_users q assms show ?thesis
    by (auto split: if_splits)
next
  case (Get_users_donations userId f)
  with assms show ?thesis by simp
next
  case (Post_donate now b f1 f2)
  obtain q db' where q: "post_donate db now b f1 f2 = (q, db')"
    by (cases "post_donate db now b f1 f2")
  from post_donate_outcome [OF q] Post_donate q assms show ?thesis
    by (auto simp: nth_append)
next
  case (Get_medicines f)
  with assms show ?thesis by simp
qed

lemma serve_step:
  "i < length (medicines db) \<Longrightarrow>
     i < length (medicines (serve db rs)) \<and>
     (medicines (serve db rs) ! i = medicines db ! i \<or>
      (donor_id (medicines db ! i) \<noteq> None \<and>
       medicines (serve db rs) ! i = (medicines db ! i)\<lparr>donor_id := None\<rparr>))"
proof (induction rs arbitrary: db)
  case Nil
  then show ?case by simp
next
  case (Cons r rs)
  let ?db1 = "snd (handle db r)"
  from handle_step [OF Cons.prems, of r]
  have len: "i < length (medicines ?db1)"
    and one: "medicines ?db1 ! i = medicines db ! i \<or>
       (donor_id (medicines db ! i) \<noteq> None \<and>
        medicines ?db1 ! i = (medicines db ! i)\<lparr>donor_id := None\<rparr>)"
    by auto
  from Cons.IH [OF len]
  have rest: "i < length (medicines (serve ?db1 rs))"
    "medicines (serve ?db1 rs) ! i = medicines ?db1 ! i \<or>
      (donor_id (medicines ?db1 ! i) \<noteq> None \<and>
       medicines (serve ?db1 rs) ! i = (medicines ?db1 ! i)\<lparr>donor_id := None\<rparr>)"
    by auto
  from one rest show ?case by auto
qed

text \<open>
  Claim C4. Take the record at any position of the medicines table and any sequence of
  requests. The record stays at its position and stays the same record but for its donor
  reference; at the end that reference is what it was at the start, or absent. So an
  absent reference stays absent and a reference to an account can only become absent.
  A single request changes the reference only if it is a delete of the very account the
  record refers to, answered with 200 and committed, and then the reference becomes absent. A
  successful donation whose email matches no account adds a record with an absent
  reference.
\<close>

theorem donor_reference_one_way:
  assumes "i < length (medicines db)"
  shows "i < length (medicines (serve db rs))
       \<and> (medicines (serve db rs) ! i)\<lparr>donor_id := None\<rparr> =
           (medicines db ! i)\<lparr>donor_id := None\<rparr>
       \<and> (donor_id (medicines (serve db rs) ! i) = donor_id (medicines db ! i)
            \<or> donor_id (medicines (serve db rs) ! i) = None)
       \<and> (donor_id (medicines (snd (handle db r)) ! i) \<noteq> donor_id (medicines db ! i) \<longrightarrow>
            (\<exists>userId. r = Delete_users userId None None None \<and>
               map_option status (fst (handle db r)) = Some 200 \<and>
               donor_id (medicines db ! i) = Some userId \<and>
               donor_id (medicines (snd (handle db r)) ! i) = None))
       \<and> (status (fst (post_donate db now b f1 f2)) = 201 \<and>
            (\<forall>u\<in>set (users db). Some (email u) \<noteq> body_donor_email b) \<longrightarrow>
            length (medicines (snd (post_donate db now b f1 f2))) = Suc (length (medicines db)) \<and>
            donor_id (last (medicines (snd (post_donate db now b f1 f2)))) = None)"
proof -
  from serve_step [OF assms, of rs]
  have run: "i < length (medicines (serve db rs))"
    "(medicines (serve db rs) ! i)\<lparr>donor_id := None\<rparr> = (medicines db ! i)\<lparr>donor_id := None\<rparr>"
    "donor_id (medicines (serve db rs) ! i) = donor_id (medicines db ! i)
            \<or> donor_id (medicines (serve db rs) ! i) = None"
    by auto
  from handle_step [OF assms, of r]
  have step: "donor_id (medicines (snd (handle db r)) ! i) \<noteq> donor_id (medicines db ! i) \<longrightarrow>
            (\<exists>userId. r = Delete_users userId None None None \<and>
               map_option status (fst (handle db r)) = Some 200 \<and>
               donor_id (medicines db ! i) = Some userId \<and>
               donor_id (medicines (snd (handle db r)) ! i) = None)"
    by auto
  obtain q db' where q: "post_donate db now b f1 f2 = (q, db')"
    by (cases "post_donate db now b f1 f2")
  have fresh: "status (fst (post_donate db now b f1 f2)) = 201 \<and>
            (\<forall>u\<in>set (users db). Some (email u) \<noteq> body_donor_email b) \<longrightarrow>
            length (medicines (snd (post_donate db now b f1 f2))) = Suc (length (medicines db)) \<and>
            donor_id (last (medicines (snd (post_donate db now b f1 f2)))) = None"
  proof (intro impI, elim conjE)
    assume ok: "status (fst (post_donate db now b f1 f2)) = 201"
      and unknown: "\<forall>u\<in>set (users db). Some (email u) \<noteq> body_donor_email b"
    from unknown have "find (\<lambda>u. Some (email u) = body_donor_email b) (users db) = None"
      by (simp add: find_None_iff)
    with post_donate_outcome [OF q] q ok
    show "length (medicines (snd (post_donate db now b f1 f2))) = Suc (length (medicines db)) \<and>
            donor_id (last (medicines (snd (post_donate db now b f1 f2)))) = None"
      by auto
  qed
  from run step fresh show ?thesis by blast
qed

theorem donor_reference_one_way_witness:
  "donor_id (medicines ledger ! 0) = Some 1
   \<and> donor_id (medicines (serve ledger [Delete_users 1 None None None]) ! 0) = None
   \<and> donor_id (medicines (serve ledger
        [Delete_users 1 None None None, Post_register toy_hash alice_body None None,
         Post_donate ''2024-06-03 08:00:00'' aspirin_body None None]) ! 0) = None
   \<and> donor_id (medicines (serve ledger
        [Delete_users 1 None None None, Post_register toy_hash alice_body None None,
         Post_donate ''2024-06-03 08:00:00'' aspirin_body None None]) ! 2) = Some 2
   \<and> donor_id (medicines ledger ! 1) = None
   \<and> donor_id (medicines (serve ledger
        [Post_register toy_hash (alice_body\<lparr>body_email := Some ''z@x.com''\<rparr>) None None]) ! 1)
       = None"
proof -
  have len: "0 < length (medicines ledger)"
    by (simp add: ledger_rows)
  have changed: "donor_id (medicines (snd (handle ledger (Delete_users 1 None None None))) ! 0) \<noteq>
      donor_id (medicines ledger ! 0)"
    by (simp add: ledger_rows statements handlers examples)
  from donor_reference_one_way [OF len, of "[Delete_users 1 None None None]"
      "Delete_users 1 None None None" "''2024-06-03 08:00:00''" ibuprofen_body None None] changed
  have "donor_id (medicines (serve ledger [Delete_users 1 None None None]) ! 0) = None"
    by simp
  moreover have "donor_id (medicines ledger ! 0) = Some 1"
    "donor_id (medicines ledger ! 1) = None"
    by (simp_all add: ledger_rows examples)
  moreover have "donor_id (medicines (serve ledger
        [Delete_users 1 None None None, Post_register toy_hash alice_body None None,
         Post_donate ''2024-06-03 08:00:00'' aspirin_body None None]) ! 0) = None"
    "donor_id (medicines (serve ledger
        [Delete_users 1 None None None, Post_register toy_hash alice_body None None,
         Post_donate ''2024-06-03 08:00:00'' aspirin_body None None]) ! 2) = Some 2"
    "donor_id (medicines (serve ledger
        [Post_register toy_hash (alice_body\<lparr>body_email := Some ''z@x.com''\<rparr>) None None]) ! 1)
       = None"
    by (simp_all add: ledger_rows statements handlers examples)
  ultimately show ?thesis by simp
qed

end
